theory Spec2Isabelle
  imports Complex_Main "HOL-Library.AList"
begin

section \<open>The job table and the in-memory job object\<close>

text \<open>
  A shallow embedding of \<^verbatim>\<open>airflow/jobs/base_job.py\<close> (class \<^verbatim>\<open>BaseJob\<close>).
  Timestamps are seconds on a rational time line, so that
  \<^verbatim>\<open>(a - b).total_seconds()\<close> is the difference \<open>a - b\<close>; the heart rate and the
  grace multiplier are Python floats and are modelled by exact rationals as well
  (rounding of binary floating point is not modelled).
\<close>

type_synonym time = rat

text \<open>
  Python exceptions as values. \<^verbatim>\<open>SystemExit\<close>, \<^verbatim>\<open>KeyboardInterrupt\<close> and
  \<^verbatim>\<open>GeneratorExit\<close> derive from \<^verbatim>\<open>BaseException\<close> only; all the others derive
  from \<^verbatim>\<open>Exception\<close>, which is what \<^verbatim>\<open>except Exception\<close> matches.
\<close>

datatype exn =
    SystemExit
  | KeyboardInterrupt
  | GeneratorExit
  | OperationalError
  | AirflowException string
  | AttributeError
  | TypeError
  | NotImplementedError string
  | OtherException string

fun is_Exception :: "exn \<Rightarrow> bool" where
  "is_Exception SystemExit = False"
| "is_Exception KeyboardInterrupt = False"
| "is_Exception GeneratorExit = False"
| "is_Exception _ = True"

text \<open>
  Modelled from the spec: the constants of \<^verbatim>\<open>airflow.utils.state.State\<close> are not
  part of the sources at hand. The column \<^verbatim>\<open>state\<close> is a nullable string; the
  three states the job protocol itself writes or tests are named here.
\<close>

definition State_RUNNING :: string where "State_RUNNING = ''running''"
definition State_SUCCESS :: string where "State_SUCCESS = ''success''"
definition State_FAILED :: string where "State_FAILED = ''failed''"

text \<open>One row of table \<^verbatim>\<open>job\<close>: the mapped columns, every one of them nullable.\<close>

record job_row =
  jid :: "nat option"
  dag_id :: "string option"
  state :: "string option"
  job_type :: "string option"
  start_date :: "time option"
  end_date :: "time option"
  latest_heartbeat :: "time option"
  executor_class :: "string option"
  hostname :: "string option"
  unixname :: "string option"

text \<open>
  The in-memory object \<^verbatim>\<open>self\<close>: the mapped columns together with \<^verbatim>\<open>heartrate\<close>,
  which is a plain attribute (class default from the configuration, or the constructor's
  argument) and is never stored.
\<close>

record job =
  row :: job_row
  heartrate :: rat

definition set_state :: "string \<Rightarrow> job \<Rightarrow> job" where
  "set_state s j = j\<lparr>row := (row j)\<lparr>state := Some s\<rparr>\<rparr>"

definition set_end_date :: "time \<Rightarrow> job \<Rightarrow> job" where
  "set_end_date t j = j\<lparr>row := (row j)\<lparr>end_date := Some t\<rparr>\<rparr>"

definition set_latest_heartbeat :: "time option \<Rightarrow> job \<Rightarrow> job" where
  "set_latest_heartbeat t j = j\<lparr>row := (row j)\<lparr>latest_heartbeat := t\<rparr>\<rparr>"

section \<open>\<^verbatim>\<open>is_alive\<close>\<close>

text \<open>
  \<^verbatim>\<open>self.state == State.RUNNING and (utcnow() - self.latest_heartbeat).total_seconds()
  < self.heartrate * grace_multiplier\<close>. The conjunction is evaluated left to right: a job
  that is not running yields \<^verbatim>\<open>False\<close> without looking at the heartbeat; for a running
  job whose \<^verbatim>\<open>latest_heartbeat\<close> is \<^verbatim>\<open>None\<close> the subtraction raises \<^verbatim>\<open>TypeError\<close>.
  The first argument is the value of \<^verbatim>\<open>timezone.utcnow()\<close>.
\<close>

definition is_alive :: "time \<Rightarrow> job \<Rightarrow> rat \<Rightarrow> exn + bool" where
  "is_alive now j grace_multiplier =
     (if state (row j) = Some State_RUNNING
      then (case latest_heartbeat (row j) of
              None \<Rightarrow> Inl TypeError
            | Some t \<Rightarrow> Inr (now - t < heartrate j * grace_multiplier))
      else Inr False)"

text \<open>The call without argument: \<^verbatim>\<open>grace_multiplier=2.1\<close>.\<close>

definition is_alive_default :: "time \<Rightarrow> job \<Rightarrow> exn + bool" where
  "is_alive_default now j = is_alive now j (21 / 10)"

section \<open>\<^verbatim>\<open>most_recent_job\<close>\<close>

text \<open>
  \<^verbatim>\<open>case({State.RUNNING: 0}, value=cls.state, else_=1)\<close>: the first \<^verbatim>\<open>ORDER BY\<close>
  key. A \<^verbatim>\<open>NULL\<close> state falls into the \<^verbatim>\<open>else\<close> branch.
\<close>

definition running_rank :: "job_row \<Rightarrow> nat" where
  "running_rank r = (if state r = Some State_RUNNING then 0 else 1)"

text \<open>
  \<^verbatim>\<open>cls.latest_heartbeat.desc()\<close>: the second key. \<open>desc_before nulls_first a b\<close> says
  that \<open>a\<close> comes strictly before \<open>b\<close> in descending order. Where a \<^verbatim>\<open>NULL\<close> sorts
  depends on the database backend, which is the parameter \<open>nulls_first\<close>.
\<close>

fun desc_before :: "bool \<Rightarrow> time option \<Rightarrow> time option \<Rightarrow> bool" where
  "desc_before nulls_first (Some a) (Some b) = (b < a)"
| "desc_before nulls_first None (Some b) = nulls_first"
| "desc_before nulls_first (Some a) None = (\<not> nulls_first)"
| "desc_before nulls_first None None = False"

definition sorts_before :: "bool \<Rightarrow> job_row \<Rightarrow> job_row \<Rightarrow> bool" where
  "sorts_before nulls_first a b =
     (running_rank a < running_rank b \<or>
      (running_rank a = running_rank b \<and>
       desc_before nulls_first (latest_heartbeat a) (latest_heartbeat b)))"

text \<open>
  \<^verbatim>\<open>.limit(1).first()\<close>: the first row of the ordered result, \<^verbatim>\<open>None\<close> when there is
  no row. Among rows that compare equal the one met first is kept.
\<close>

fun first_ordered :: "bool \<Rightarrow> job_row list \<Rightarrow> job_row option" where
  "first_ordered nulls_first [] = None"
| "first_ordered nulls_first (r # rs) =
     Some (fold (\<lambda>x best. if sorts_before nulls_first x best then x else best) rs r)"

text \<open>
  \<^verbatim>\<open>session.query(cls)\<close> on the single-table hierarchy discriminated by \<^verbatim>\<open>job_type\<close>
  selects the rows whose \<^verbatim>\<open>job_type\<close> is the polymorphic identity of \<^verbatim>\<open>cls\<close> or of
  one of its subclasses; \<open>identities\<close> lists them.
\<close>

definition of_class :: "string list \<Rightarrow> job_row \<Rightarrow> bool" where
  "of_class identities r = (case job_type r of None \<Rightarrow> False | Some t \<Rightarrow> t \<in> set identities)"

definition most_recent_job :: "bool \<Rightarrow> string list \<Rightarrow> job_row list \<Rightarrow> job_row option" where
  "most_recent_job nulls_first identities table =
     first_ordered nulls_first (filter (of_class identities) table)"

section \<open>The world around a job\<close>

text \<open>
  The state outside the object: the table \<^verbatim>\<open>job\<close> keyed by \<^verbatim>\<open>id\<close>, the clock read
  by \<^verbatim>\<open>timezone.utcnow()\<close>, the counters of \<^verbatim>\<open>Stats\<close>, the number of storage round
  trips made so far, and the log of committed rows in commit order.
\<close>

record world =
  db :: "(nat \<times> job_row) list"
  clock :: time
  stats :: "string \<Rightarrow> nat"
  ops :: nat
  commits :: "job_row list"

text \<open>
  What a concrete job class and its surroundings supply: the class name, the subclass
  methods \<^verbatim>\<open>_execute\<close>, \<^verbatim>\<open>on_kill\<close> and \<^verbatim>\<open>heartbeat_callback\<close>, and the listener
  hook \<^verbatim>\<open>before_stopping\<close>. Each of them may raise; the methods and the hook see the job
  and may change the world, and \<^verbatim>\<open>_execute\<close> may also change the job object itself.
  \<open>fault_at n\<close> says whether the storage round trip number \<open>n\<close> (counted from 0) raises
  \<^verbatim>\<open>OperationalError\<close>. \<^verbatim>\<open>State.terminating_states\<close> and
  \<^verbatim>\<open>convert_camel_to_snake\<close> live outside the sources at hand and are parameters.
\<close>

record env =
  class_name :: string
  convert_camel_to_snake :: "string \<Rightarrow> string"
  terminating_states :: "string list"
  fault_at :: "nat \<Rightarrow> bool"
  execute :: "job \<times> world \<Rightarrow> (exn + int option) \<times> job \<times> world"
  on_kill :: "job \<Rightarrow> world \<Rightarrow> exn option \<times> world"
  heartbeat_callback :: "job \<Rightarrow> world \<Rightarrow> exn option \<times> world"
  before_stopping :: "job \<Rightarrow> world \<Rightarrow> exn option \<times> world"

text \<open>
  Modelled from the spec: \<^verbatim>\<open>airflow.stats.Stats\<close> is not part of the sources at hand.
  \<^verbatim>\<open>Stats.incr(name, 1, 1)\<close> adds one to the named counter.
\<close>

definition stats_incr :: "string \<Rightarrow> world \<Rightarrow> world" where
  "stats_incr name w = w\<lparr>stats := (stats w)(name := Suc (stats w name))\<rparr>"

text \<open>\<^verbatim>\<open>time.sleep(d)\<close>: the clock moves on by \<open>d\<close>.\<close>

definition sleep :: "rat \<Rightarrow> world \<Rightarrow> world" where
  "sleep d w = w\<lparr>clock := clock w + d\<rparr>"

text \<open>\<^verbatim>\<open>str.lower()\<close> on the ASCII letters of a class name.\<close>

definition lower_char :: "char \<Rightarrow> char" where
  "lower_char c =
     (if 65 \<le> (of_char c :: nat) \<and> (of_char c :: nat) \<le> 90
      then char_of ((of_char c :: nat) + 32) else c)"

definition lower :: "string \<Rightarrow> string" where
  "lower s = map lower_char s"

subsection \<open>The storage session\<close>

text \<open>
  Modelled from the spec: the storage session (\<^verbatim>\<open>create_session\<close>,
  \<^verbatim>\<open>provide_session\<close> and the SQLAlchemy \<^verbatim>\<open>Session\<close> they hand out) is not part of
  the sources at hand. The spec asks of it scoped sessions with load by id, merge of a
  detached record and commit, and a distinguishable transient failure. Every round trip to
  the database counts one operation and raises \<^verbatim>\<open>OperationalError\<close> when the
  environment schedules a fault for it. Only the session calls that the source itself
  writes are modelled; what \<^verbatim>\<open>create_session\<close> does when its block is left is not.
\<close>

definition round_trip :: "env \<Rightarrow> world \<Rightarrow> bool \<times> world" where
  "round_trip E w = (fault_at E (ops w), w\<lparr>ops := Suc (ops w)\<rparr>)"

definition lookup_row :: "nat option \<Rightarrow> world \<Rightarrow> job_row option" where
  "lookup_row i w = (case i of None \<Rightarrow> None | Some k \<Rightarrow> map_of (db w) k)"

text \<open>
  Modelled from the spec: \<^verbatim>\<open>session.merge(obj)\<close>, the merge of a detached record. The
  session looks the row up and its own copy takes over the columns that the object has at
  this moment; the object itself is left as it is, and the source never uses the copy that
  the call returns. A commit that follows writes the columns as they were merged.
\<close>

definition session_merge :: "env \<Rightarrow> world \<Rightarrow> (exn + unit) \<times> world" where
  "session_merge E w =
     (case round_trip E w of
        (True, w') \<Rightarrow> (Inl OperationalError, w')
      | (False, w') \<Rightarrow> (Inr (), w'))"

text \<open>
  Modelled from the spec: the next value of the autoincrement key \<^verbatim>\<open>id\<close>, for a row
  that has none yet.
\<close>

definition fresh_id :: "(nat \<times> job_row) list \<Rightarrow> nat" where
  "fresh_id table = Suc (fold max (map fst table) 0)"

text \<open>
  Modelled from the spec: \<^verbatim>\<open>session.commit()\<close> of a merged or added row. The row is
  written under its key (a fresh one if it has none) and appended to the commit log. The
  row as stored is returned.
\<close>

definition commit_key :: "job_row \<Rightarrow> world \<Rightarrow> nat" where
  "commit_key r w = (case jid r of None \<Rightarrow> fresh_id (db w) | Some i \<Rightarrow> i)"

definition session_commit :: "env \<Rightarrow> job_row \<Rightarrow> world \<Rightarrow> (exn + job_row) \<times> world" where
  "session_commit E r w =
     (case round_trip E w of
        (True, w') \<Rightarrow> (Inl OperationalError, w')
      | (False, w') \<Rightarrow>
          (let k = commit_key r w';
               r' = r\<lparr>jid := Some k\<rparr>
           in (Inr r', w'\<lparr>db := AList.update k r' (db w'), commits := commits w' @ [r']\<rparr>)))"

text \<open>
  Modelled from the spec: \<^verbatim>\<open>session.query(BaseJob).filter(BaseJob.id == self.id).first()\<close>,
  the stored row with that \<^verbatim>\<open>id\<close>, or \<^verbatim>\<open>None\<close>.
\<close>

definition session_query_first :: "env \<Rightarrow> nat option \<Rightarrow> world \<Rightarrow> (exn + job_row option) \<times> world" where
  "session_query_first E i w =
     (case round_trip E w of
        (True, w') \<Rightarrow> (Inl OperationalError, w')
      | (False, w') \<Rightarrow> (Inr (lookup_row i w'), w'))"

section \<open>\<^verbatim>\<open>kill\<close>\<close>

text \<open>
  The first two statements of \<^verbatim>\<open>kill\<close>: the row is queried by \<^verbatim>\<open>self.id\<close> and
  \<^verbatim>\<open>end_date\<close> is assigned on the loaded object. Nothing is written yet. When no row is
  found, \<^verbatim>\<open>job\<close> is \<^verbatim>\<open>None\<close> and the assignment raises \<^verbatim>\<open>AttributeError\<close>.
\<close>

definition kill_load :: "env \<Rightarrow> job \<Rightarrow> world \<Rightarrow> (exn + job_row) \<times> world" where
  "kill_load E j w =
     (case session_query_first E (jid (row j)) w of
        (Inl e, w1) \<Rightarrow> (Inl e, w1)
      | (Inr None, w1) \<Rightarrow> (Inl AttributeError, w1)
      | (Inr (Some r), w1) \<Rightarrow> (Inr (r\<lparr>end_date := Some (clock w1)\<rparr>), w1))"

text \<open>
  \<^verbatim>\<open>try: self.on_kill() except Exception as e: self.log.error(...)\<close>: an exception that
  derives from \<^verbatim>\<open>Exception\<close> is logged and dropped, any other one leaves \<^verbatim>\<open>kill\<close>.
\<close>

definition kill_hook :: "env \<Rightarrow> job \<Rightarrow> world \<Rightarrow> exn option \<times> world" where
  "kill_hook E j w =
     (case on_kill E j w of
        (None, w') \<Rightarrow> (None, w')
      | (Some e, w') \<Rightarrow> (if is_Exception e then (None, w') else (Some e, w')))"

text \<open>
  \<^verbatim>\<open>kill\<close> never returns: its result is the exception that leaves it, together with the
  world it leaves behind. After the hook, the loaded row is merged and committed, and
  \<^verbatim>\<open>AirflowException("Job shut down externally.")\<close> is raised.
\<close>

definition kill :: "env \<Rightarrow> job \<Rightarrow> world \<Rightarrow> exn \<times> world" where
  "kill E j w =
     (case kill_load E j w of
        (Inl e, w1) \<Rightarrow> (e, w1)
      | (Inr r, w1) \<Rightarrow>
          (case kill_hook E j w1 of
             (Some e, w2) \<Rightarrow> (e, w2)
           | (None, w2) \<Rightarrow>
               (case session_merge E w2 of
                  (Inl e, w3) \<Rightarrow> (e, w3)
                | (Inr u, w3) \<Rightarrow>
                    (case session_commit E r w3 of
                       (Inl e, w4) \<Rightarrow> (e, w4)
                     | (Inr r', w4) \<Rightarrow> (AirflowException ''Job shut down externally.'', w4)))))"

section \<open>\<^verbatim>\<open>heartbeat\<close>\<close>

text \<open>
  \<^verbatim>\<open>self.heartrate - (utcnow() - self.latest_heartbeat).total_seconds()\<close>, and \<open>0\<close>
  when there is no \<^verbatim>\<open>latest_heartbeat\<close>.
\<close>

definition seconds_remaining :: "job \<Rightarrow> time \<Rightarrow> rat" where
  "seconds_remaining j now =
     (case latest_heartbeat (row j) of
        None \<Rightarrow> 0
      | Some t \<Rightarrow> heartrate j - (now - t))"

definition sleep_for :: "job \<Rightarrow> time \<Rightarrow> rat" where
  "sleep_for j now =
     (case latest_heartbeat (row j) of
        None \<Rightarrow> 0
      | Some t \<Rightarrow> max 0 (heartrate j - (now - t)))"

definition is_terminating :: "env \<Rightarrow> job \<Rightarrow> bool" where
  "is_terminating E j =
     (case state (row j) of None \<Rightarrow> False | Some s \<Rightarrow> s \<in> set (terminating_states E))"

text \<open>
  The second session block: merge, \<^verbatim>\<open>self.latest_heartbeat = utcnow()\<close>, commit. The
  merge comes before the assignment, and the assignment changes the object only, so the
  commit writes the columns the object had when it was merged: the new timestamp is not in
  them. The result carries the object as the block leaves it.
\<close>

definition heartbeat_commit :: "env \<Rightarrow> job \<Rightarrow> world \<Rightarrow> exn option \<times> job \<times> world" where
  "heartbeat_commit E j w =
     (case session_merge E w of
        (Inl e, w1) \<Rightarrow> (Some e, j, w1)
      | (Inr u, w1) \<Rightarrow>
          (let merged = row j;
               j1 = set_latest_heartbeat (Some (clock w1)) j
           in case session_commit E merged w1 of
                (Inl e, w2) \<Rightarrow> (Some e, j1, w2)
              | (Inr r', w2) \<Rightarrow> (None, j1, w2)))"

text \<open>
  The body of the \<^verbatim>\<open>try\<close> statement. The result is the exception that leaves the body
  (if any), the value of the local variable \<^verbatim>\<open>previous_heartbeat\<close> at that moment, the
  object and the world. The first session block merges the object and drops the result,
  so \<^verbatim>\<open>previous_heartbeat\<close>, the test \<^verbatim>\<open>self.state in State.terminating_states\<close> and
  the time to sleep are all read from the object as it was, not from the stored row.
\<close>

definition heartbeat_try :: "env \<Rightarrow> job \<Rightarrow> world \<Rightarrow> exn option \<times> time option \<times> job \<times> world" where
  "heartbeat_try E j w =
     (case session_merge E w of
        (Inl e, w1) \<Rightarrow> (Some e, latest_heartbeat (row j), j, w1)
      | (Inr u, w1) \<Rightarrow>
          (if is_terminating E j
           then (case kill E j w1 of (e, w2) \<Rightarrow> (Some e, latest_heartbeat (row j), j, w2))
           else
             (case heartbeat_commit E j (sleep (sleep_for j (clock w1)) w1) of
                (Some e, j2, w2) \<Rightarrow> (Some e, latest_heartbeat (row j), j2, w2)
              | (None, j2, w2) \<Rightarrow>
                  (case heartbeat_callback E j2 w2 of
                     (x, w3) \<Rightarrow> (x, latest_heartbeat (row j2), j2, w3)))))"

definition heartbeat_failure_counter :: "env \<Rightarrow> string" where
  "heartbeat_failure_counter E = convert_camel_to_snake E (class_name E) @ ''_heartbeat_failure''"

text \<open>
  \<^verbatim>\<open>heartbeat(only_if_necessary)\<close>: the early return, the \<^verbatim>\<open>try\<close> body, and the handler
  \<^verbatim>\<open>except OperationalError\<close>, which counts the failure and assigns
  \<^verbatim>\<open>previous_heartbeat\<close> back. Any other exception leaves the method.
\<close>

definition heartbeat :: "env \<Rightarrow> bool \<Rightarrow> job \<Rightarrow> world \<Rightarrow> (exn + unit) \<times> job \<times> world" where
  "heartbeat E only_if_necessary j w =
     (if 0 < seconds_remaining j (clock w) \<and> only_if_necessary then (Inr (), j, w)
      else
        (case heartbeat_try E j w of
           (None, prev, j', w') \<Rightarrow> (Inr (), j', w')
         | (Some e, prev, j', w') \<Rightarrow>
             (if e = OperationalError
              then (Inr (), set_latest_heartbeat prev j',
                    stats_incr (heartbeat_failure_counter E) w')
              else (Inl e, j', w'))))"

section \<open>\<^verbatim>\<open>run\<close>\<close>

text \<open>
  The start of \<^verbatim>\<open>run\<close>: the start counter, \<^verbatim>\<open>self.state = State.RUNNING\<close>,
  \<^verbatim>\<open>session.add(self)\<close>, \<^verbatim>\<open>session.commit()\<close> (which gives the object its \<^verbatim>\<open>id\<close>)
  and \<^verbatim>\<open>make_transient(self)\<close>.
\<close>

definition run_start :: "env \<Rightarrow> job \<Rightarrow> world \<Rightarrow> exn option \<times> job \<times> world" where
  "run_start E j w =
     (let w0 = stats_incr (lower (class_name E) @ ''_start'') w;
          j1 = set_state State_RUNNING j
      in case session_commit E (row j1) w0 of
           (Inl e, w1) \<Rightarrow> (Some e, j1, w1)
         | (Inr r', w1) \<Rightarrow> (None, j1\<lparr>row := r'\<rparr>, w1))"

text \<open>
  The \<^verbatim>\<open>try\<close> / \<^verbatim>\<open>except\<close> clauses around \<^verbatim>\<open>self._execute()\<close>: the object after the
  matching clause, the exception that is still to be raised once \<^verbatim>\<open>finally\<close> is done,
  and the value of \<^verbatim>\<open>ret\<close>.
\<close>

definition run_classify :: "(exn + int option) \<Rightarrow> job \<Rightarrow> job \<times> exn option \<times> int option" where
  "run_classify out j =
     (case out of
        Inr r \<Rightarrow> (set_state State_SUCCESS j, None, r)
      | Inl e \<Rightarrow>
          (if e = SystemExit then (set_state State_SUCCESS j, None, None)
           else if is_Exception e then (set_state State_FAILED j, Some e, None)
           else (j, Some e, None)))"

text \<open>
  The \<^verbatim>\<open>finally\<close> clause: the listener hook, \<^verbatim>\<open>self.end_date = utcnow()\<close>, merge and
  commit. An exception raised here replaces the pending one.
\<close>

definition run_finally :: "env \<Rightarrow> job \<Rightarrow> world \<Rightarrow> exn option \<times> job \<times> world" where
  "run_finally E j w =
     (case before_stopping E j w of
        (Some e, w1) \<Rightarrow> (Some e, j, w1)
      | (None, w1) \<Rightarrow>
          (let j1 = set_end_date (clock w1) j in
           case session_merge E w1 of
             (Inl e, w2) \<Rightarrow> (Some e, j1, w2)
           | (Inr u, w2) \<Rightarrow>
               (case session_commit E (row j1) w2 of
                  (Inl e, w3) \<Rightarrow> (Some e, j1, w3)
                | (Inr r', w3) \<Rightarrow> (None, j1, w3))))"

definition run :: "env \<Rightarrow> job \<Rightarrow> world \<Rightarrow> (exn + int option) \<times> job \<times> world" where
  "run E j w =
     (case run_start E j w of
        (Some e, j1, w1) \<Rightarrow> (Inl e, j1, w1)
      | (None, j1, w1) \<Rightarrow>
          (case execute E (j1, w1) of
             (out, j2, w2) \<Rightarrow>
               (case run_classify out j2 of
                  (j3, pending, ret) \<Rightarrow>
                    (case run_finally E j3 w2 of
                       (Some e, j4, w3) \<Rightarrow> (Inl e, j4, w3)
                     | (None, j4, w3) \<Rightarrow>
                         (case pending of
                            Some e \<Rightarrow> (Inl e, j4, w3)
                          | None \<Rightarrow>
                              (Inr ret, j4,
                               stats_incr (lower (class_name E) @ ''_end'') w3))))))"

text \<open>\<^verbatim>\<open>BaseJob._execute\<close> itself, which a subclass has to override.\<close>

definition BaseJob_execute :: "job \<times> world \<Rightarrow> (exn + int option) \<times> job \<times> world" where
  "BaseJob_execute s = (Inl (NotImplementedError ''This method needs to be overridden''), s)"

section \<open>Concrete jobs, worlds and environments\<close>

text \<open>
  A stored scheduler job with heart rate 5 whose last heartbeat was at time 0, a world
  whose table holds it at time 7, and an environment without storage faults whose
  subclass methods and hooks do nothing.
\<close>

definition example_row :: job_row where
  "example_row =
     \<lparr>jid = Some 1, dag_id = None, state = Some ''running'', job_type = Some ''SchedulerJob'',
      start_date = Some 0, end_date = None, latest_heartbeat = Some 0,
      executor_class = Some ''SequentialExecutor'', hostname = Some ''host'',
      unixname = Some ''airflow''\<rparr>"

definition example_job :: job where
  "example_job = \<lparr>row = example_row, heartrate = 5\<rparr>"

definition example_world :: world where
  "example_world =
     \<lparr>db = [(1, example_row)], clock = 7, stats = (\<lambda>name. 0), ops = 0, commits = []\<rparr>"

definition example_env :: env where
  "example_env =
     \<lparr>class_name = ''SchedulerJob'',
      convert_camel_to_snake = (\<lambda>s. ''scheduler_job''),
      terminating_states = [''shutdown'', ''restarting''],
      fault_at = (\<lambda>n. False),
      execute = (\<lambda>(j, w). (Inr None, j, w)),
      on_kill = (\<lambda>j w. (None, w)),
      heartbeat_callback = (\<lambda>j w. (None, w)),
      before_stopping = (\<lambda>j w. (None, w))\<rparr>"

text \<open>A job as the constructor leaves it (no \<^verbatim>\<open>id\<close>, no state) and an empty table.\<close>

definition new_job :: job where
  "new_job = \<lparr>row = example_row\<lparr>jid := None, state := None\<rparr>, heartrate = 5\<rparr>"

definition empty_world :: world where
  "empty_world = \<lparr>db = [], clock = 7, stats = (\<lambda>name. 0), ops = 0, commits = []\<rparr>"

text \<open>
  Environments that differ from the example in one point: a cleanup hook that looks at
  the stored row while it runs, a cleanup hook that raises, a heartbeat callback that
  meets a storage failure, a storage fault at the first round trip and one at the third, a
  table in which the job was asked to shut down, and \<^verbatim>\<open>_execute\<close> methods that exit,
  are interrupted, or are the one of \<^verbatim>\<open>BaseJob\<close> itself.
\<close>

definition probe_env :: env where
  "probe_env =
     example_env\<lparr>on_kill := (\<lambda>j w.
        (None,
         if (case lookup_row (jid (row j)) w of None \<Rightarrow> False | Some r \<Rightarrow> end_date r = None)
         then stats_incr ''on_kill_saw_no_end_date'' w else w))\<rparr>"

definition failing_hook_env :: env where
  "failing_hook_env =
     example_env\<lparr>on_kill := (\<lambda>j w. (Some (OtherException ''cleanup failed''), w))\<rparr>"

definition callback_fault_env :: env where
  "callback_fault_env =
     example_env\<lparr>heartbeat_callback := (\<lambda>j w. (Some OperationalError, w))\<rparr>"

definition reload_fault_env :: env where
  "reload_fault_env = example_env\<lparr>fault_at := (\<lambda>n. n = 0)\<rparr>"

definition commit_fault_env :: env where
  "commit_fault_env = example_env\<lparr>fault_at := (\<lambda>n. n = 2)\<rparr>"

definition shutdown_world :: world where
  "shutdown_world = example_world\<lparr>db := [(1, example_row\<lparr>state := Some ''shutdown''\<rparr>)]\<rparr>"

definition exit_env :: env where
  "exit_env = example_env\<lparr>execute := (\<lambda>(j, w). (Inl SystemExit, j, w))\<rparr>"

definition interrupt_env :: env where
  "interrupt_env = example_env\<lparr>execute := (\<lambda>(j, w). (Inl KeyboardInterrupt, j, w))\<rparr>"

definition base_env :: env where
  "base_env = example_env\<lparr>execute := BaseJob_execute\<rparr>"

text \<open>
  The \<^verbatim>\<open>state\<close> and \<^verbatim>\<open>end_date\<close> columns of the committed rows, in commit order.
\<close>

definition log_view :: "world \<Rightarrow> (string option \<times> time option) list" where
  "log_view w = map (\<lambda>r. (state r, end_date r)) (commits w)"

section \<open>Liveness\<close>

text \<open>
  C2. For every job and every current time, \<^verbatim>\<open>is_alive\<close> is true exactly if the state
  is RUNNING and the time since the latest heartbeat is less than the heart rate times the
  grace multiplier, whose default is 2.1; for every state other than RUNNING it is false
  whatever the heartbeat is. (The comparison needs a heartbeat timestamp: the claim's
  \<open>now - latest_heartbeat\<close> is read for a record that has one.)
\<close>

theorem is_alive_iff:
  "is_alive_default now j = is_alive now j (21 / 10) \<and>
   (state (row j) \<noteq> Some State_RUNNING \<longrightarrow> is_alive now j gm = Inr False) \<and>
   (latest_heartbeat (row j) = Some t \<longrightarrow>
      is_alive now j gm =
        Inr (state (row j) = Some State_RUNNING \<and> now - t < heartrate j * gm))"
  by (simp add: is_alive_def is_alive_default_def)

text \<open>
  The running example job (heartbeat at 0, heart rate 5) is alive at time 10 and no longer
  at time 11; put into state FAILED it is not alive even at time 1.
\<close>

theorem is_alive_iff_witness:
  "is_alive 10 example_job (21 / 10) = Inr True \<and>
   is_alive 11 example_job (21 / 10) = Inr False \<and>
   is_alive 1 (set_state State_FAILED example_job) (21 / 10) = Inr False"
  using is_alive_iff [of 10 example_job "21 / 10" 0]
        is_alive_iff [of 11 example_job "21 / 10" 0]
        is_alive_iff [of 1 "set_state State_FAILED example_job" "21 / 10" 0]
  by (simp add: example_job_def example_row_def set_state_def State_RUNNING_def State_FAILED_def)

text \<open>
  C9, as stated, fails: with heart rate 60 and multiplier 2.1 the grace window is 126
  seconds, so a RUNNING job whose last heartbeat was at time 1000 is still alive at
  1000 + 125.
\<close>

theorem is_alive_scenario_counterexample:
  "is_alive (1000 + 125)
     (example_job\<lparr>row := example_row\<lparr>latest_heartbeat := Some 1000\<rparr>, heartrate := 60\<rparr>)
     (21 / 10) = Inr True"
  by (simp add: is_alive_def example_row_def State_RUNNING_def)

text \<open>
  C9, amended. For a job with heart rate 60 and multiplier 2.1 whose last heartbeat was at
  time T: \<^verbatim>\<open>is_alive\<close> is false at T + 126 seconds and at any later time; at T + 65 with
  state RUNNING it is true; at T + 125 it is still true for a RUNNING job and false only
  for a job in another state.
\<close>

theorem is_alive_scenario:
  "heartrate j = 60 \<and> latest_heartbeat (row j) = Some T \<longrightarrow>
     (\<forall>d \<ge> 126. is_alive (T + d) j (21 / 10) = Inr False) \<and>
     (state (row j) = Some State_RUNNING \<longrightarrow>
        is_alive (T + 65) j (21 / 10) = Inr True \<and>
        is_alive (T + 125) j (21 / 10) = Inr True) \<and>
     (state (row j) \<noteq> Some State_RUNNING \<longrightarrow> is_alive (T + 125) j (21 / 10) = Inr False)"
  by (simp add: is_alive_def)

theorem is_alive_scenario_witness:
  "is_alive (1000 + 126) (example_job\<lparr>row := example_row\<lparr>latest_heartbeat := Some 1000\<rparr>,
       heartrate := 60\<rparr>) (21 / 10) = Inr False \<and>
   is_alive (1000 + 65) (example_job\<lparr>row := example_row\<lparr>latest_heartbeat := Some 1000\<rparr>,
       heartrate := 60\<rparr>) (21 / 10) = Inr True"
proof -
  let ?j = "example_job\<lparr>row := example_row\<lparr>latest_heartbeat := Some 1000\<rparr>, heartrate := 60\<rparr>"
  have pre: "heartrate ?j = 60 \<and> latest_heartbeat (row ?j) = Some 1000"
    by simp
  have running: "state (row ?j) = Some State_RUNNING"
    by (simp add: example_row_def State_RUNNING_def)
  from is_alive_scenario [of ?j 1000] pre running
  have late: "\<forall>d\<ge>126. is_alive (1000 + d) ?j (21 / 10) = Inr False"
    and early: "is_alive (1000 + 65) ?j (21 / 10) = Inr True"
    by blast+
  from late have "is_alive (1000 + 126) ?j (21 / 10) = Inr False"
    by (rule allE [of _ 126]) simp
  with early show ?thesis by simp
qed

section \<open>The most recent job of a class\<close>

text \<open>
  The \<^verbatim>\<open>ORDER BY\<close> relation is irreflexive and transitive, so the row that the fold
  keeps is one that no candidate row sorts strictly before.
\<close>

lemma desc_before_irrefl: "\<not> desc_before nf a a"
  by (cases a) simp_all

lemma desc_before_trans:
  "desc_before nf a b \<Longrightarrow> desc_before nf b c \<Longrightarrow> desc_before nf a c"
  by (cases a; cases b; cases c) auto

lemma sorts_before_irrefl: "\<not> sorts_before nf a a"
  by (simp add: sorts_before_def desc_before_irrefl)

lemma sorts_before_trans:
  "sorts_before nf a b \<Longrightarrow> sorts_before nf b c \<Longrightarrow> sorts_before nf a c"
  unfolding sorts_before_def using desc_before_trans by (metis less_trans)

lemma fold_pick_least:
  assumes "\<forall>x \<in> S. \<not> sorts_before nf x best" and "best \<in> S"
  shows "fold (\<lambda>x best. if sorts_before nf x best then x else best) rs best \<in> S \<union> set rs \<and>
         (\<forall>x \<in> S \<union> set rs.
            \<not> sorts_before nf x (fold (\<lambda>x best. if sorts_before nf x best then x else best) rs best))"
  using assms
proof (induction rs arbitrary: best S)
  case Nil
  then show ?case by simp
next
  case (Cons r rs)
  let ?b = "if sorts_before nf r best then r else best"
  have "\<forall>x \<in> insert r S. \<not> sorts_before nf x ?b"
    using Cons.prems sorts_before_trans sorts_before_irrefl by (auto split: if_splits)
  moreover have "?b \<in> insert r S" using Cons.prems by simp
  ultimately show ?case
    using Cons.IH [of "insert r S" ?b] by simp
qed

lemma first_ordered_None: "first_ordered nf rs = None \<longleftrightarrow> rs = []"
  by (cases rs) simp_all

lemma first_ordered_least:
  assumes "first_ordered nf rs = Some r"
  shows "r \<in> set rs \<and> (\<forall>x \<in> set rs. \<not> sorts_before nf x r)"
proof (cases rs)
  case Nil
  with assms show ?thesis by simp
next
  case (Cons a as)
  have "\<forall>x \<in> {a}. \<not> sorts_before nf x a" by (simp add: sorts_before_irrefl)
  from fold_pick_least [OF this, of as] Cons assms show ?thesis by auto
qed

text \<open>
  C4. For every table, \<^verbatim>\<open>most_recent_job\<close> returns nothing exactly if the table has no
  row of the class; otherwise it returns a row of the class that sorts first: no row of the
  class sorts strictly before it, it is RUNNING as soon as some row of the class is
  RUNNING, and among the rows of its group (RUNNING, or not RUNNING) none has a later
  heartbeat. In particular, given one RUNNING row with heartbeat T - 5 and one FAILED row
  with heartbeat T - 1, in either order, it returns the RUNNING one.
\<close>

theorem most_recent_job_sorts_first:
  "(most_recent_job nf ids table = None \<longleftrightarrow> (\<forall>r \<in> set table. \<not> of_class ids r)) \<and>
   (\<forall>r. most_recent_job nf ids table = Some r \<longrightarrow>
      r \<in> set table \<and> of_class ids r \<and>
      (\<forall>r' \<in> set table. of_class ids r' \<longrightarrow> \<not> sorts_before nf r' r) \<and>
      ((\<exists>r' \<in> set table. of_class ids r' \<and> state r' = Some State_RUNNING) \<longrightarrow>
         state r = Some State_RUNNING) \<and>
      (\<forall>r' \<in> set table. \<forall>t t'.
         of_class ids r' \<and>
         (state r' = Some State_RUNNING \<longleftrightarrow> state r = Some State_RUNNING) \<and>
         latest_heartbeat r = Some t \<and> latest_heartbeat r' = Some t' \<longrightarrow> t' \<le> t)) \<and>
   (\<forall>T a b.
      of_class ids a \<and> state a = Some State_RUNNING \<and> latest_heartbeat a = Some (T - 5) \<and>
      of_class ids b \<and> state b = Some State_FAILED \<and> latest_heartbeat b = Some (T - 1) \<longrightarrow>
      most_recent_job nf ids [a, b] = Some a \<and> most_recent_job nf ids [b, a] = Some a)"
proof (intro conjI allI impI)
  show "most_recent_job nf ids table = None \<longleftrightarrow> (\<forall>r \<in> set table. \<not> of_class ids r)"
    by (simp add: most_recent_job_def first_ordered_None filter_empty_conv)
next
  fix r assume "most_recent_job nf ids table = Some r"
  then have least: "r \<in> set (filter (of_class ids) table) \<and>
      (\<forall>x \<in> set (filter (of_class ids) table). \<not> sorts_before nf x r)"
    unfolding most_recent_job_def by (rule first_ordered_least)
  show "r \<in> set table" using least by simp
  show "of_class ids r" using least by simp
  show "\<forall>r' \<in> set table. of_class ids r' \<longrightarrow> \<not> sorts_before nf r' r"
    using least by simp
  show "state r = Some State_RUNNING"
    if "\<exists>r' \<in> set table. of_class ids r' \<and> state r' = Some State_RUNNING"
  proof (rule ccontr)
    assume "state r \<noteq> Some State_RUNNING"
    moreover from that obtain r' where "r' \<in> set table" "of_class ids r'"
      "state r' = Some State_RUNNING" by blast
    ultimately have "sorts_before nf r' r"
      by (simp add: sorts_before_def running_rank_def)
    with least \<open>r' \<in> set table\<close> \<open>of_class ids r'\<close> show False by simp
  qed
  show "\<forall>r' \<in> set table. \<forall>t t'.
         of_class ids r' \<and>
         (state r' = Some State_RUNNING \<longleftrightarrow> state r = Some State_RUNNING) \<and>
         latest_heartbeat r = Some t \<and> latest_heartbeat r' = Some t' \<longrightarrow> t' \<le> t"
  proof (intro ballI allI impI)
    fix r' t t'
    assume r': "r' \<in> set table"
      and h: "of_class ids r' \<and>
         (state r' = Some State_RUNNING \<longleftrightarrow> state r = Some State_RUNNING) \<and>
         latest_heartbeat r = Some t \<and> latest_heartbeat r' = Some t'"
    from least r' h have "\<not> sorts_before nf r' r" by simp
    with h show "t' \<le> t"
      by (auto simp: sorts_before_def running_rank_def split: if_splits)
  qed
next
  fix T :: rat and a b
  assume h: "of_class ids a \<and> state a = Some State_RUNNING \<and> latest_heartbeat a = Some (T - 5) \<and>
      of_class ids b \<and> state b = Some State_FAILED \<and> latest_heartbeat b = Some (T - 1)"
  then have ab: "sorts_before nf a b" and ba: "\<not> sorts_before nf b a"
    by (simp_all add: sorts_before_def running_rank_def State_RUNNING_def State_FAILED_def)
  from h ba show "most_recent_job nf ids [a, b] = Some a"
    by (simp add: most_recent_job_def)
  from h ab show "most_recent_job nf ids [b, a] = Some a"
    by (simp add: most_recent_job_def)
qed

text \<open>
  The scenario at T = 100, with the FAILED row stored first.
\<close>

theorem most_recent_job_sorts_first_witness:
  "most_recent_job False [''SchedulerJob'']
     [example_row\<lparr>jid := Some 2, state := Some State_FAILED, latest_heartbeat := Some (100 - 1)\<rparr>,
      example_row\<lparr>latest_heartbeat := Some (100 - 5)\<rparr>]
   = Some (example_row\<lparr>latest_heartbeat := Some (100 - 5)\<rparr>) \<and>
   \<not> sorts_before False
      (example_row\<lparr>jid := Some 2, state := Some State_FAILED, latest_heartbeat := Some (100 - 1)\<rparr>)
      (example_row\<lparr>latest_heartbeat := Some (100 - 5)\<rparr>)"
proof -
  let ?a = "example_row\<lparr>latest_heartbeat := Some (100 - 5)\<rparr>"
  let ?b = "example_row\<lparr>jid := Some 2, state := Some State_FAILED, latest_heartbeat := Some (100 - 1)\<rparr>"
  have cls: "of_class [''SchedulerJob''] ?b"
    by (simp add: of_class_def example_row_def)
  have "of_class [''SchedulerJob''] ?a \<and> state ?a = Some State_RUNNING \<and>
        latest_heartbeat ?a = Some (100 - 5) \<and>
        of_class [''SchedulerJob''] ?b \<and> state ?b = Some State_FAILED \<and>
        latest_heartbeat ?b = Some (100 - 1)"
    by (simp add: of_class_def example_row_def State_RUNNING_def)
  with most_recent_job_sorts_first [of False "[''SchedulerJob'']" "[]"]
  have first: "most_recent_job False [''SchedulerJob''] [?b, ?a] = Some ?a"
    by blast
  with most_recent_job_sorts_first [of False "[''SchedulerJob'']" "[?b, ?a]"]
  have "\<forall>r' \<in> set [?b, ?a]. of_class [''SchedulerJob''] r' \<longrightarrow> \<not> sorts_before False r' ?a"
    by blast
  with cls have "\<not> sorts_before False ?b ?a"
    by simp
  with first show ?thesis by simp
qed

section \<open>Storage round trips\<close>

text \<open>
  What each session operation does when its round trip succeeds, and when it fails.
\<close>

lemma round_trip_ok:
  "\<not> fault_at E (ops w) \<Longrightarrow> round_trip E w = (False, w\<lparr>ops := Suc (ops w)\<rparr>)"
  by (simp add: round_trip_def)

lemma session_merge_ok:
  "\<not> fault_at E (ops w) \<Longrightarrow> session_merge E w = (Inr (), w\<lparr>ops := Suc (ops w)\<rparr>)"
  by (simp add: session_merge_def round_trip_ok)

lemma session_merge_fault:
  "fault_at E (ops w) \<Longrightarrow> session_merge E w = (Inl OperationalError, w\<lparr>ops := Suc (ops w)\<rparr>)"
  by (simp add: session_merge_def round_trip_def)

lemma jid_update_same: "jid r = Some i \<Longrightarrow> r\<lparr>jid := Some i\<rparr> = r"
  by (drule sym) simp

lemma session_commit_ok:
  "\<not> fault_at E (ops w) \<Longrightarrow> jid r = Some i \<Longrightarrow>
   session_commit E r w =
     (Inr r, w\<lparr>ops := Suc (ops w), db := AList.update i r (db w), commits := commits w @ [r]\<rparr>)"
  by (simp add: session_commit_def round_trip_ok jid_update_same commit_key_def)

lemma commit_key_ops [simp]: "commit_key r (w\<lparr>ops := n\<rparr>) = commit_key r w"
  by (simp add: commit_key_def split: option.splits)

lemma session_commit_done:
  "\<not> fault_at E (ops w) \<Longrightarrow>
   session_commit E r w =
     (Inr (r\<lparr>jid := Some (commit_key r w)\<rparr>),
      w\<lparr>ops := Suc (ops w),
        db := AList.update (commit_key r w) (r\<lparr>jid := Some (commit_key r w)\<rparr>) (db w),
        commits := commits w @ [r\<lparr>jid := Some (commit_key r w)\<rparr>]\<rparr>)"
  by (simp add: session_commit_def round_trip_ok Let_def)

lemma session_query_first_ok:
  "\<not> fault_at E (ops w) \<Longrightarrow>
   session_query_first E i w = (Inr (lookup_row i w), w\<lparr>ops := Suc (ops w)\<rparr>)"
  by (simp add: session_query_first_def round_trip_ok lookup_row_def split: option.splits)

lemma stats_incr_counter:
  "stats (stats_incr c w) c = Suc (stats w c)"
  by (simp add: stats_incr_def)

lemma example_env_nofault:
  "\<forall>n. \<not> fault_at example_env n"
  "\<forall>n. \<not> fault_at exit_env n"
  "\<forall>n. \<not> fault_at base_env n"
  by (simp_all add: example_env_def exit_env_def base_env_def)

section \<open>Killing a job\<close>

lemma kill_load_found:
  assumes "\<not> fault_at E (ops w)" and "jid (row j) = Some i" and "map_of (db w) i = Some r"
  shows "kill_load E j w = (Inr (r\<lparr>end_date := Some (clock w)\<rparr>), w\<lparr>ops := Suc (ops w)\<rparr>)"
  using assms by (simp add: kill_load_def session_query_first_ok lookup_row_def)

lemma kill_completes:
  assumes nofault: "\<forall>n. \<not> fault_at E n"
    and load: "kill_load E j w = (Inr r, w1)"
    and key: "jid r = Some i"
    and hook: "on_kill E j w1 = (h, w2)"
    and caught: "\<forall>e. h = Some e \<longrightarrow> is_Exception e"
  shows "kill E j w =
           (AirflowException ''Job shut down externally.'',
            w2\<lparr>ops := Suc (Suc (ops w2)), db := AList.update i r (db w2),
               commits := commits w2 @ [r]\<rparr>)"
proof -
  have "kill_hook E j w1 = (None, w2)"
    using hook caught by (cases h) (simp_all add: kill_hook_def)
  moreover have "session_merge E w2 = (Inr (), w2\<lparr>ops := Suc (ops w2)\<rparr>)"
    using nofault by (simp add: session_merge_ok)
  moreover have "session_commit E r (w2\<lparr>ops := Suc (ops w2)\<rparr>) =
      (Inr r, w2\<lparr>ops := Suc (Suc (ops w2)), db := AList.update i r (db w2),
                 commits := commits w2 @ [r]\<rparr>)"
    using nofault key by (simp add: session_commit_ok)
  ultimately show ?thesis
    using load by (simp add: kill_def)
qed

text \<open>
  C5, as stated, fails: \<^verbatim>\<open>end_date\<close> is not committed before the cleanup hook runs.
  A hook that reads the stored row while it runs still finds \<^verbatim>\<open>end_date\<close> unset; the
  row is committed, with \<^verbatim>\<open>end_date\<close> set, only after the hook.
\<close>

theorem kill_commit_before_hook_counterexample:
  "stats (snd (kill probe_env example_job example_world)) ''on_kill_saw_no_end_date'' = 1 \<and>
   fst (kill probe_env example_job example_world) = AirflowException ''Job shut down externally.'' \<and>
   lookup_row (Some 1) (snd (kill probe_env example_job example_world)) =
     Some (example_row\<lparr>end_date := Some 7\<rparr>)"
  by (simp add: kill_def kill_load_def kill_hook_def session_query_first_def session_merge_def
      session_commit_def commit_key_def round_trip_def lookup_row_def stats_incr_def probe_env_def
      example_env_def example_job_def example_world_def example_row_def Let_def)

text \<open>
  C5, amended. For every call to \<^verbatim>\<open>kill\<close> on a job whose row is stored, with storage
  available: \<^verbatim>\<open>end_date\<close> is set to the current time on the loaded row before the
  \<^verbatim>\<open>on_kill\<close> hook executes, while table and commit log are still unchanged at that
  point; the row is committed after the hook; an exception deriving from
  \<^verbatim>\<open>Exception\<close> that the hook raises is caught and does not prevent the commit; and
  the termination signal is raised to the caller in every such case, including when the
  hook raises.
\<close>

theorem kill_commits_after_hook:
  assumes nofault: "\<forall>n. \<not> fault_at E n"
    and self_id: "jid (row j) = Some i"
    and stored: "map_of (db w) i = Some r"
    and key: "jid r = Some i"
    and hook: "on_kill E j (snd (kill_load E j w)) = (h, w2)"
    and caught: "\<forall>e. h = Some e \<longrightarrow> is_Exception e"
  shows "kill_load E j w = (Inr (r\<lparr>end_date := Some (clock w)\<rparr>), w\<lparr>ops := Suc (ops w)\<rparr>) \<and>
         fst (kill E j w) = AirflowException ''Job shut down externally.'' \<and>
         map_of (db (snd (kill E j w))) i = Some (r\<lparr>end_date := Some (clock w)\<rparr>) \<and>
         commits (snd (kill E j w)) = commits w2 @ [r\<lparr>end_date := Some (clock w)\<rparr>]"
proof -
  have load: "kill_load E j w = (Inr (r\<lparr>end_date := Some (clock w)\<rparr>), w\<lparr>ops := Suc (ops w)\<rparr>)"
    using nofault self_id stored by (simp add: kill_load_found)
  have "kill E j w =
          (AirflowException ''Job shut down externally.'',
           w2\<lparr>ops := Suc (Suc (ops w2)),
              db := AList.update i (r\<lparr>end_date := Some (clock w)\<rparr>) (db w2),
              commits := commits w2 @ [r\<lparr>end_date := Some (clock w)\<rparr>]\<rparr>)"
    using kill_completes [OF nofault load _ _ caught, of i w2] key hook load by simp
  with load show ?thesis by (simp add: update_conv')
qed

text \<open>
  A hook that raises: the row is committed with \<^verbatim>\<open>end_date = 7\<close> all the same, and the
  caller gets the termination signal.
\<close>

theorem kill_commits_after_hook_witness:
  "kill_load failing_hook_env example_job example_world =
     (Inr (example_row\<lparr>end_date := Some 7\<rparr>), example_world\<lparr>ops := 1\<rparr>) \<and>
   fst (kill failing_hook_env example_job example_world) =
     AirflowException ''Job shut down externally.'' \<and>
   map_of (db (snd (kill failing_hook_env example_job example_world))) 1 =
     Some (example_row\<lparr>end_date := Some 7\<rparr>) \<and>
   commits (snd (kill failing_hook_env example_job example_world)) =
     [example_row\<lparr>end_date := Some 7\<rparr>]"
proof -
  have nofault: "\<forall>n. \<not> fault_at failing_hook_env n"
    by (simp add: failing_hook_env_def example_env_def)
  have self_id: "jid (row example_job) = Some 1"
    by (simp add: example_job_def example_row_def)
  have stored: "map_of (db example_world) 1 = Some example_row"
    by (simp add: example_world_def)
  have key: "jid example_row = Some 1"
    by (simp add: example_row_def)
  have hook: "on_kill failing_hook_env example_job
                (snd (kill_load failing_hook_env example_job example_world)) =
              (Some (OtherException ''cleanup failed''),
               snd (kill_load failing_hook_env example_job example_world))"
    by (simp add: failing_hook_env_def example_env_def)
  have caught: "\<forall>e. Some (OtherException ''cleanup failed'') = Some e \<longrightarrow> is_Exception e"
    by simp
  have w2: "commits (snd (kill_load failing_hook_env example_job example_world)) = []"
    using kill_load_found [of failing_hook_env example_world example_job 1 example_row]
      nofault self_id stored by (simp add: example_world_def)
  from kill_commits_after_hook [OF nofault self_id stored key hook caught] w2
  show ?thesis by (simp add: example_world_def)
qed

section \<open>Heartbeats\<close>

lemma set_latest_heartbeat_same [simp]:
  "set_latest_heartbeat (latest_heartbeat (row j)) j = j"
  by (simp add: set_latest_heartbeat_def)

lemma heartbeat_due:
  "\<not> (0 < seconds_remaining j (clock w) \<and> b) \<Longrightarrow>
   heartbeat E b j w =
     (case heartbeat_try E j w of
        (None, prev, j', w') \<Rightarrow> (Inr (), j', w')
      | (Some e, prev, j', w') \<Rightarrow>
          (if e = OperationalError
           then (Inr (), set_latest_heartbeat prev j',
                 stats_incr (heartbeat_failure_counter E) w')
           else (Inl e, j', w')))"
  by (simp only: heartbeat_def if_not_P if_False)

lemma heartbeat_try_kill:
  "session_merge E w = (Inr u, w1) \<Longrightarrow> is_terminating E j \<Longrightarrow>
   heartbeat_try E j w =
     (Some (fst (kill E j w1)), latest_heartbeat (row j), j, snd (kill E j w1))"
  by (simp add: heartbeat_try_def split: prod.splits)

lemma heartbeat_commit_restores:
  assumes "heartbeat_commit E j w = (x, j2, w2)"
  shows "set_latest_heartbeat (latest_heartbeat (row j)) j2 = j"
proof (cases "fault_at E (ops w)")
  case True
  with assms show ?thesis by (simp add: heartbeat_commit_def session_merge_fault)
next
  case False
  with assms have "j2 = set_latest_heartbeat (Some (clock w)) j"
    by (auto simp: heartbeat_commit_def session_merge_ok Let_def split: prod.splits sum.splits)
  then show ?thesis by (simp add: set_latest_heartbeat_def)
qed

lemma heartbeat_commit_done:
  assumes "heartbeat_commit E j w = (None, j2, w2)"
  shows "j2 = set_latest_heartbeat (Some (clock w)) j"
proof (cases "fault_at E (ops w)")
  case True
  with assms show ?thesis by (simp add: heartbeat_commit_def session_merge_fault)
next
  case False
  with assms show ?thesis
    by (auto simp: heartbeat_commit_def session_merge_ok Let_def split: prod.splits sum.splits)
qed

text \<open>
  C8. A call \<^verbatim>\<open>heartbeat(only_if_necessary=True)\<close> made while
  \<open>heartrate - (now - latest_heartbeat)\<close> is positive returns at once: the object and the
  whole world (table, commit log, number of storage round trips, counters, clock) are
  what they were, so nothing was read or written and no hook ran.
\<close>

theorem heartbeat_not_due_is_noop:
  "latest_heartbeat (row j) = Some t \<and> 0 < heartrate j - (clock w - t) \<longrightarrow>
     heartbeat E True j w = (Inr (), j, w)"
  by (simp add: heartbeat_def seconds_remaining_def)

text \<open>
  Three seconds after a heartbeat, with a heart rate of five.
\<close>

theorem heartbeat_not_due_is_noop_witness:
  "heartbeat example_env True example_job (example_world\<lparr>clock := 3\<rparr>) =
     (Inr (), example_job, example_world\<lparr>clock := 3\<rparr>)"
  using heartbeat_not_due_is_noop [of example_job 0 "example_world\<lparr>clock := 3\<rparr>" example_env]
  by (simp add: example_job_def example_row_def)

text \<open>
  C6. The claim asks that a heartbeat which finds the stored record in a terminating
  state invokes \<^verbatim>\<open>kill\<close> and lets its termination signal through. The code does not
  do so: it merges the object into the session and drops the result, so the state it
  tests is the one the object had before the call. At the example job, whose stored row
  was set to \<^verbatim>\<open>shutdown\<close> while the object still says \<^verbatim>\<open>running\<close>, the heartbeat
  returns normally, with a new timestamp in the object.
\<close>

theorem heartbeat_misses_stored_shutdown:
  "lookup_row (jid (row example_job)) shutdown_world =
     Some (example_row\<lparr>state := Some ''shutdown''\<rparr>) \<and>
   ''shutdown'' \<in> set (terminating_states example_env) \<and>
   state (row example_job) = Some ''running'' \<and>
   fst (heartbeat example_env False example_job shutdown_world) = Inr () \<and>
   fst (snd (heartbeat example_env False example_job shutdown_world)) =
     set_latest_heartbeat (Some 7) example_job"
  by (simp add: heartbeat_def heartbeat_try_def heartbeat_commit_def seconds_remaining_def
      sleep_for_def sleep_def session_merge_def session_commit_def commit_key_def
      is_terminating_def round_trip_def lookup_row_def set_latest_heartbeat_def
      shutdown_world_def example_env_def example_job_def example_world_def example_row_def
      Let_def)

text \<open>
  C3, as stated, fails for the hook phase: when the heartbeat callback meets the storage
  failure, the commit has succeeded already and \<^verbatim>\<open>previous_heartbeat\<close> has been moved
  on to the new timestamp, so the in-memory \<^verbatim>\<open>latest_heartbeat\<close> after the call is the
  new timestamp 7 and not the value 0 it had before the call.
\<close>

theorem heartbeat_hook_failure_counterexample:
  "latest_heartbeat (row example_job) = Some 0 \<and>
   fst (heartbeat callback_fault_env False example_job example_world) = Inr () \<and>
   latest_heartbeat (row (fst (snd (heartbeat callback_fault_env False example_job example_world))))
     = Some 7"
  by (simp add: heartbeat_def heartbeat_try_def heartbeat_commit_def seconds_remaining_def
      sleep_for_def sleep_def session_merge_def session_commit_def commit_key_def
      is_terminating_def round_trip_def lookup_row_def set_latest_heartbeat_def
      callback_fault_env_def example_env_def example_job_def
      example_world_def example_row_def Let_def)

text \<open>
  C3, amended. In a call to \<^verbatim>\<open>heartbeat\<close> that is not skipped, a transient storage
  failure is never propagated and increments the heartbeat failure counter by exactly 1.
  If it occurs in the reload phase (the first merge) or in the sleep-then-commit phase
  (the second merge or the commit), the object after the call is the object before the
  call, so the in-memory \<^verbatim>\<open>latest_heartbeat\<close> equals its value before the call; the same
  holds when \<^verbatim>\<open>kill\<close>, invoked for a terminating state, meets the failure. If it occurs
  in the heartbeat callback, after the commit, the object keeps the timestamp assigned in
  this call (the time after the pacing sleep).
\<close>

theorem heartbeat_absorbs_storage_failure:
  assumes due: "\<not> (0 < seconds_remaining j (clock w) \<and> only_if_necessary)"
  shows
    "(\<forall>prev j' w'.
        heartbeat_try E j w = (Some OperationalError, prev, j', w') \<longrightarrow>
        heartbeat E only_if_necessary j w =
          (Inr (), set_latest_heartbeat prev j', stats_incr (heartbeat_failure_counter E) w') \<and>
        stats (stats_incr (heartbeat_failure_counter E) w') (heartbeat_failure_counter E) =
          Suc (stats w' (heartbeat_failure_counter E))) \<and>
     (\<forall>w1. session_merge E w = (Inl OperationalError, w1) \<longrightarrow>
        heartbeat E only_if_necessary j w =
          (Inr (), j, stats_incr (heartbeat_failure_counter E) w1)) \<and>
     (\<forall>u w1 j2 w2.
        session_merge E w = (Inr u, w1) \<and> \<not> is_terminating E j \<and>
        heartbeat_commit E j (sleep (sleep_for j (clock w1)) w1) =
          (Some OperationalError, j2, w2) \<longrightarrow>
        heartbeat E only_if_necessary j w =
          (Inr (), j, stats_incr (heartbeat_failure_counter E) w2)) \<and>
     (\<forall>u w1 j2 w2 w3.
        session_merge E w = (Inr u, w1) \<and> \<not> is_terminating E j \<and>
        heartbeat_commit E j (sleep (sleep_for j (clock w1)) w1) = (None, j2, w2) \<and>
        heartbeat_callback E j2 w2 = (Some OperationalError, w3) \<longrightarrow>
        heartbeat E only_if_necessary j w =
          (Inr (), j2, stats_incr (heartbeat_failure_counter E) w3) \<and>
        j2 = set_latest_heartbeat (Some (clock w1 + sleep_for j (clock w1))) j \<and>
        latest_heartbeat (row j2) = Some (clock w1 + sleep_for j (clock w1))) \<and>
     (\<forall>u w1 w2.
        session_merge E w = (Inr u, w1) \<and> is_terminating E j \<and>
        kill E j w1 = (OperationalError, w2) \<longrightarrow>
        heartbeat E only_if_necessary j w =
          (Inr (), j, stats_incr (heartbeat_failure_counter E) w2))"
proof (intro conjI allI impI)
  fix prev j' w'
  assume "heartbeat_try E j w = (Some OperationalError, prev, j', w')"
  then show "heartbeat E only_if_necessary j w =
      (Inr (), set_latest_heartbeat prev j', stats_incr (heartbeat_failure_counter E) w')"
    using heartbeat_due [OF due, of E] by simp
  show "stats (stats_incr (heartbeat_failure_counter E) w') (heartbeat_failure_counter E) =
        Suc (stats w' (heartbeat_failure_counter E))"
    by (rule stats_incr_counter)
next
  fix w1 assume "session_merge E w = (Inl OperationalError, w1)"
  then show "heartbeat E only_if_necessary j w =
      (Inr (), j, stats_incr (heartbeat_failure_counter E) w1)"
    using heartbeat_due [OF due, of E] by (simp add: heartbeat_try_def)
next
  fix u w1 j2 w2
  assume h: "session_merge E w = (Inr u, w1) \<and> \<not> is_terminating E j \<and>
        heartbeat_commit E j (sleep (sleep_for j (clock w1)) w1) =
          (Some OperationalError, j2, w2)"
  then have "set_latest_heartbeat (latest_heartbeat (row j)) j2 = j"
    using heartbeat_commit_restores by blast
  with h show "heartbeat E only_if_necessary j w =
      (Inr (), j, stats_incr (heartbeat_failure_counter E) w2)"
    using heartbeat_due [OF due, of E] by (simp add: heartbeat_try_def)
next
  fix u w1 j2 w2 w3
  assume h: "session_merge E w = (Inr u, w1) \<and> \<not> is_terminating E j \<and>
        heartbeat_commit E j (sleep (sleep_for j (clock w1)) w1) = (None, j2, w2) \<and>
        heartbeat_callback E j2 w2 = (Some OperationalError, w3)"
  then show "heartbeat E only_if_necessary j w =
      (Inr (), j2, stats_incr (heartbeat_failure_counter E) w3)"
    using heartbeat_due [OF due, of E] by (simp add: heartbeat_try_def)
  from h have "j2 = set_latest_heartbeat (Some (clock (sleep (sleep_for j (clock w1)) w1))) j"
    using heartbeat_commit_done by blast
  then show j2: "j2 = set_latest_heartbeat (Some (clock w1 + sleep_for j (clock w1))) j"
    by (simp add: sleep_def)
  then show "latest_heartbeat (row j2) = Some (clock w1 + sleep_for j (clock w1))"
    by (simp add: set_latest_heartbeat_def)
next
  fix u w1 w2
  assume h: "session_merge E w = (Inr u, w1) \<and> is_terminating E j \<and>
        kill E j w1 = (OperationalError, w2)"
  then have "heartbeat_try E j w = (Some OperationalError, latest_heartbeat (row j), j, w2)"
    using heartbeat_try_kill [of E w u w1 j] by simp
  then show "heartbeat E only_if_necessary j w =
      (Inr (), j, stats_incr (heartbeat_failure_counter E) w2)"
    using heartbeat_due [OF due, of E] by simp
qed

text \<open>
  A fault at the first merge, a fault at the commit, and a callback that fails, each on
  the example job at time 7.
\<close>

theorem heartbeat_absorbs_storage_failure_witness:
  "heartbeat reload_fault_env False example_job example_world =
     (Inr (), example_job, stats_incr ''scheduler_job_heartbeat_failure'' (example_world\<lparr>ops := 1\<rparr>)) \<and>
   heartbeat commit_fault_env False example_job example_world =
     (Inr (), example_job, stats_incr ''scheduler_job_heartbeat_failure'' (example_world\<lparr>ops := 3\<rparr>)) \<and>
   heartbeat callback_fault_env False example_job example_world =
     (Inr (), set_latest_heartbeat (Some 7) example_job,
      stats_incr ''scheduler_job_heartbeat_failure''
        (example_world\<lparr>ops := 3, commits := [example_row]\<rparr>))"
proof -
  have due: "\<not> (0 < seconds_remaining example_job (clock example_world) \<and> False)"
    by simp
  have counter: "heartbeat_failure_counter reload_fault_env = ''scheduler_job_heartbeat_failure''"
    "heartbeat_failure_counter commit_fault_env = ''scheduler_job_heartbeat_failure''"
    "heartbeat_failure_counter callback_fault_env = ''scheduler_job_heartbeat_failure''"
    by (simp_all add: heartbeat_failure_counter_def reload_fault_env_def commit_fault_env_def
        callback_fault_env_def example_env_def)
  have a: "session_merge reload_fault_env example_world =
             (Inl OperationalError, example_world\<lparr>ops := 1\<rparr>)"
    by (simp add: session_merge_fault reload_fault_env_def example_env_def example_world_def)
  have b1: "session_merge commit_fault_env example_world = (Inr (), example_world\<lparr>ops := 1\<rparr>)"
    by (simp add: session_merge_ok commit_fault_env_def example_env_def example_world_def)
  have b2: "\<not> is_terminating commit_fault_env example_job"
    by (simp add: is_terminating_def commit_fault_env_def example_env_def example_job_def
        example_row_def)
  have b3: "heartbeat_commit commit_fault_env example_job
              (sleep (sleep_for example_job (clock (example_world\<lparr>ops := 1\<rparr>)))
                 (example_world\<lparr>ops := 1\<rparr>)) =
            (Some OperationalError, set_latest_heartbeat (Some 7) example_job,
             example_world\<lparr>ops := 3\<rparr>)"
    by (simp add: heartbeat_commit_def session_merge_def session_commit_def commit_key_def
        round_trip_def sleep_def sleep_for_def commit_fault_env_def example_env_def
        example_world_def example_job_def example_row_def Let_def)
  have c1: "session_merge callback_fault_env example_world =
              (Inr (), example_world\<lparr>ops := 1\<rparr>)"
    by (simp add: session_merge_ok callback_fault_env_def example_env_def example_world_def)
  have c2: "\<not> is_terminating callback_fault_env example_job"
    by (simp add: is_terminating_def callback_fault_env_def example_env_def example_job_def
        example_row_def)
  have c3: "heartbeat_commit callback_fault_env example_job
              (sleep (sleep_for example_job (clock (example_world\<lparr>ops := 1\<rparr>)))
                 (example_world\<lparr>ops := 1\<rparr>)) =
            (None, set_latest_heartbeat (Some 7) example_job,
             example_world\<lparr>ops := 3, commits := [example_row]\<rparr>)"
    by (simp add: heartbeat_commit_def session_merge_def session_commit_def commit_key_def
        round_trip_def sleep_def sleep_for_def set_latest_heartbeat_def callback_fault_env_def
        example_env_def example_world_def example_job_def example_row_def Let_def)
  have c4: "heartbeat_callback callback_fault_env (set_latest_heartbeat (Some 7) example_job)
              (example_world\<lparr>ops := 3, commits := [example_row]\<rparr>) =
            (Some OperationalError, example_world\<lparr>ops := 3, commits := [example_row]\<rparr>)"
    by (simp add: callback_fault_env_def example_env_def)
  note A = heartbeat_absorbs_storage_failure [OF due, of reload_fault_env,
      THEN conjunct2, THEN conjunct1, rule_format, OF a]
  note B = heartbeat_absorbs_storage_failure [OF due, of commit_fault_env,
      THEN conjunct2, THEN conjunct2, THEN conjunct1, rule_format,
      OF conjI [OF b1 conjI [OF b2 b3]]]
  note C = heartbeat_absorbs_storage_failure [OF due, of callback_fault_env,
      THEN conjunct2, THEN conjunct2, THEN conjunct2, THEN conjunct1, rule_format,
      OF conjI [OF c1 conjI [OF c2 conjI [OF c3 c4]]], THEN conjunct1]
  from A B C show ?thesis by (simp only: counter)
qed

section \<open>Running a job\<close>

lemma run_start_ok:
  assumes "\<forall>n. \<not> fault_at E n"
  shows "fst (run_start E j w) = None \<and>
         state (row (fst (snd (run_start E j w)))) = Some State_RUNNING \<and>
         end_date (row (fst (snd (run_start E j w)))) = end_date (row j) \<and>
         log_view (snd (snd (run_start E j w))) =
           log_view w @ [(Some State_RUNNING, end_date (row j))]"
  using assms
  by (simp add: run_start_def session_commit_done set_state_def stats_incr_def log_view_def
      Let_def)

lemma run_finally_ok:
  assumes "\<forall>n. \<not> fault_at E n" and "before_stopping E j w = (None, w1)"
  shows "fst (run_finally E j w) = None \<and>
         fst (snd (run_finally E j w)) = set_end_date (clock w1) j \<and>
         log_view (snd (snd (run_finally E j w))) =
           log_view w1 @ [(state (row j), Some (clock w1))] \<and>
         last (commits (snd (snd (run_finally E j w)))) =
           (row (set_end_date (clock w1) j))\<lparr>jid := jid (last (commits (snd (snd (run_finally E j w)))))\<rparr>"
  using assms
  by (simp add: run_finally_def session_merge_ok session_commit_done set_end_date_def
      log_view_def Let_def)

lemma run_unfold:
  assumes "fst (run_start E j w) = None"
    and "execute E (snd (run_start E j w)) = (out, j2, w2)"
    and "fst (run_finally E (fst (run_classify out j2)) w2) = None"
  shows "run E j w =
          (case fst (snd (run_classify out j2)) of
             Some e \<Rightarrow> (Inl e, snd (run_finally E (fst (run_classify out j2)) w2))
           | None \<Rightarrow>
               (Inr (snd (snd (run_classify out j2))),
                fst (snd (run_finally E (fst (run_classify out j2)) w2)),
                stats_incr (lower (class_name E) @ ''_end'')
                  (snd (snd (run_finally E (fst (run_classify out j2)) w2)))))"
proof -
  obtain x j1 w1 where s: "run_start E j w = (x, j1, w1)" by (cases "run_start E j w")
  obtain j3 p ret where c: "run_classify out j2 = (j3, p, ret)" by (cases "run_classify out j2")
  obtain y j4 w3 where f: "run_finally E j3 w2 = (y, j4, w3)" by (cases "run_finally E j3 w2")
  from assms s c f show ?thesis
    by (simp add: run_def split: option.splits)
qed

lemma run_classify_state:
  "(case out of Inr r \<Rightarrow> True | Inl e \<Rightarrow> e = SystemExit \<or> is_Exception e) \<Longrightarrow>
   state (row (fst (run_classify out j))) =
     Some (case out of Inr r \<Rightarrow> State_SUCCESS
           | Inl e \<Rightarrow> if e = SystemExit then State_SUCCESS else State_FAILED)"
  by (auto simp: run_classify_def set_state_def split: sum.splits)

lemma run_result:
  assumes nofault: "\<forall>n. \<not> fault_at E n"
    and exec: "execute E (snd (run_start E j w)) = (out, j2, w2)"
    and hook: "before_stopping E (fst (run_classify out j2)) w2 = (None, w3)"
  shows "fst (run E j w) =
           (case fst (snd (run_classify out j2)) of
              Some e \<Rightarrow> Inl e | None \<Rightarrow> Inr (snd (snd (run_classify out j2)))) \<and>
         fst (snd (run E j w)) = set_end_date (clock w3) (fst (run_classify out j2)) \<and>
         log_view (snd (snd (run E j w))) =
           log_view w3 @ [(state (row (fst (run_classify out j2))), Some (clock w3))]"
proof -
  note fin = run_finally_ok [OF nofault hook]
  from run_unfold [OF conjunct1 [OF run_start_ok [OF nofault]] exec conjunct1 [OF fin]] fin
  show ?thesis
    by (cases "fst (snd (run_classify out j2))")
       (simp_all add: log_view_def stats_incr_def split_beta)
qed

text \<open>
  C1, as stated, fails: when \<^verbatim>\<open>_execute\<close> raises \<^verbatim>\<open>KeyboardInterrupt\<close>, which
  is neither \<^verbatim>\<open>SystemExit\<close> nor an \<^verbatim>\<open>Exception\<close>, no \<^verbatim>\<open>except\<close> clause
  matches and the \<^verbatim>\<open>finally\<close> clause commits the row in state RUNNING: no terminal
  state is persisted.
\<close>

theorem run_terminal_state_counterexample:
  "log_view (snd (snd (run interrupt_env new_job empty_world))) =
     [(Some State_RUNNING, None), (Some State_RUNNING, Some 7)] \<and>
   State_RUNNING \<noteq> State_SUCCESS \<and> State_RUNNING \<noteq> State_FAILED"
  by (simp add: run_def run_start_def run_classify_def run_finally_def session_commit_def
      session_merge_def round_trip_def commit_key_def fresh_id_def stats_incr_def
      set_state_def set_end_date_def log_view_def interrupt_env_def example_env_def
      new_job_def empty_world_def example_row_def State_RUNNING_def State_SUCCESS_def
      State_FAILED_def Let_def)

text \<open>
  C1, amended. For every run of \<^verbatim>\<open>run\<close> in which \<^verbatim>\<open>_execute\<close> returns normally,
  raises \<^verbatim>\<open>SystemExit\<close> or raises an exception deriving from \<^verbatim>\<open>Exception\<close>, and in
  which the storage and the \<^verbatim>\<open>before_stopping\<close> hook do not fail: \<^verbatim>\<open>run\<close> commits
  the row in state RUNNING, with \<^verbatim>\<open>end_date\<close> untouched, before \<^verbatim>\<open>_execute\<close>, and
  after it commits exactly once more, a row in state SUCCESS or FAILED whose
  \<^verbatim>\<open>end_date\<close> is the time of finalization; the object ends in that state with that
  \<^verbatim>\<open>end_date\<close>. Nothing is asked of \<^verbatim>\<open>_execute\<close>, which need not call
  \<^verbatim>\<open>heartbeat\<close>.
\<close>

theorem run_persists_one_terminal_state:
  assumes nofault: "\<forall>n. \<not> fault_at E n"
    and exec: "execute E (snd (run_start E j w)) = (out, j2, w2)"
    and classified: "case out of Inr r \<Rightarrow> True | Inl e \<Rightarrow> e = SystemExit \<or> is_Exception e"
    and hook: "before_stopping E (fst (run_classify out j2)) w2 = (None, w3)"
  shows "log_view (snd (snd (run_start E j w))) =
           log_view w @ [(Some State_RUNNING, end_date (row j))] \<and>
         (\<exists>s. s \<in> {State_SUCCESS, State_FAILED} \<and>
              log_view (snd (snd (run E j w))) = log_view w3 @ [(Some s, Some (clock w3))] \<and>
              state (row (fst (snd (run E j w)))) = Some s) \<and>
         end_date (row (fst (snd (run E j w)))) = Some (clock w3)"
proof -
  let ?s = "case out of Inr r \<Rightarrow> State_SUCCESS
            | Inl e \<Rightarrow> if e = SystemExit then State_SUCCESS else State_FAILED"
  have s: "?s \<in> {State_SUCCESS, State_FAILED}"
    by (simp split: sum.splits)
  note res = run_result [OF nofault exec hook]
  note st = run_classify_state [OF classified, of j2]
  have "log_view (snd (snd (run E j w))) = log_view w3 @ [(Some ?s, Some (clock w3))]"
    using res st by simp
  moreover have "state (row (fst (snd (run E j w)))) = Some ?s"
    using res st by (simp add: set_end_date_def)
  moreover have "end_date (row (fst (snd (run E j w)))) = Some (clock w3)"
    using res by (simp add: set_end_date_def)
  ultimately show ?thesis
    using s run_start_ok [OF nofault, of j w] by blast
qed

text \<open>
  A new job whose \<^verbatim>\<open>_execute\<close> returns at once, never calling \<^verbatim>\<open>heartbeat\<close>.
\<close>

theorem run_persists_one_terminal_state_witness:
  "log_view (snd (snd (run_start example_env new_job empty_world))) =
     [(Some State_RUNNING, None)] \<and>
   state (row (fst (snd (run example_env new_job empty_world)))) = Some State_SUCCESS \<and>
   end_date (row (fst (snd (run example_env new_job empty_world)))) = Some 7 \<and>
   log_view (snd (snd (run example_env new_job empty_world))) =
     [(Some State_RUNNING, None), (Some State_SUCCESS, Some 7)]"
proof -
  let ?s = "run_start example_env new_job empty_world"
  have exec: "execute example_env (snd ?s) = (Inr None, fst (snd ?s), snd (snd ?s))"
    by (simp add: example_env_def split_beta)
  have classified: "case (Inr None :: exn + int option) of Inr r \<Rightarrow> True
                    | Inl e \<Rightarrow> e = SystemExit \<or> is_Exception e"
    by simp
  have hook: "before_stopping example_env (fst (run_classify (Inr None) (fst (snd ?s))))
                (snd (snd ?s)) = (None, snd (snd ?s))"
    by (simp add: example_env_def)
  have start: "log_view (snd (snd ?s)) = [(Some State_RUNNING, None)]"
    using run_start_ok [OF example_env_nofault(1), of new_job empty_world]
    by (simp add: log_view_def empty_world_def new_job_def example_row_def)
  have clock: "clock (snd (snd ?s)) = 7"
    by (simp add: run_start_def session_commit_done example_env_nofault stats_incr_def
        empty_world_def Let_def)
  have distinct: "State_FAILED \<noteq> State_SUCCESS"
    by (simp add: State_FAILED_def State_SUCCESS_def)
  from run_persists_one_terminal_state [OF example_env_nofault(1) exec classified hook]
  obtain s where s: "s \<in> {State_SUCCESS, State_FAILED}"
    and lg: "log_view (snd (snd (run example_env new_job empty_world))) =
             log_view (snd (snd ?s)) @ [(Some s, Some (clock (snd (snd ?s))))]"
    and st: "state (row (fst (snd (run example_env new_job empty_world)))) = Some s"
    and en: "end_date (row (fst (snd (run example_env new_job empty_world)))) =
             Some (clock (snd (snd ?s)))"
    by blast
  have "state (row (fst (snd (run example_env new_job empty_world)))) = Some State_SUCCESS"
    by (simp add: run_def run_start_def run_classify_def run_finally_def session_commit_done
        session_merge_ok example_env_nofault example_env_def set_state_def set_end_date_def
        Let_def split_beta)
  with st have "s = State_SUCCESS" by simp
  with lg st en start clock show ?thesis by simp
qed

text \<open>
  C7, as stated, fails: \<^verbatim>\<open>KeyboardInterrupt\<close> is an exception other than the
  shutdown signal \<^verbatim>\<open>SystemExit\<close>, and when \<^verbatim>\<open>_execute\<close> raises it the stored row
  stays in state RUNNING, not FAILED.
\<close>

theorem run_classification_counterexample:
  "fst (run interrupt_env new_job empty_world) = Inl KeyboardInterrupt \<and>
   map_of (db (snd (snd (run interrupt_env new_job empty_world)))) 1 =
     Some (example_row\<lparr>end_date := Some 7\<rparr>) \<and>
   state (example_row\<lparr>end_date := Some 7\<rparr>) = Some State_RUNNING \<and>
   State_RUNNING \<noteq> State_FAILED"
  by (simp add: run_def run_start_def run_classify_def run_finally_def session_commit_def
      session_merge_def round_trip_def commit_key_def fresh_id_def stats_incr_def
      set_state_def set_end_date_def interrupt_env_def example_env_def
      new_job_def empty_world_def example_row_def State_RUNNING_def
      State_FAILED_def Let_def)

text \<open>
  C7, amended. With storage and \<^verbatim>\<open>before_stopping\<close> hook not failing: if
  \<^verbatim>\<open>_execute\<close> raises \<^verbatim>\<open>SystemExit\<close>, the terminal state that \<^verbatim>\<open>run\<close> commits is
  SUCCESS; if \<^verbatim>\<open>_execute\<close> raises any other exception that derives from
  \<^verbatim>\<open>Exception\<close>, the terminal state committed is FAILED, \<^verbatim>\<open>end_date\<close> is set, and
  that exception is raised to the caller after the commit.
\<close>

theorem run_classifies_exceptions:
  assumes nofault: "\<forall>n. \<not> fault_at E n"
    and exec: "execute E (snd (run_start E j w)) = (Inl e, j2, w2)"
    and hook: "before_stopping E (fst (run_classify (Inl e) j2)) w2 = (None, w3)"
  shows "(e = SystemExit \<longrightarrow>
            log_view (snd (snd (run E j w))) =
              log_view w3 @ [(Some State_SUCCESS, Some (clock w3))]) \<and>
         (e \<noteq> SystemExit \<and> is_Exception e \<longrightarrow>
            fst (run E j w) = Inl e \<and>
            log_view (snd (snd (run E j w))) =
              log_view w3 @ [(Some State_FAILED, Some (clock w3))] \<and>
            end_date (row (fst (snd (run E j w)))) = Some (clock w3))"
  using run_result [OF nofault exec hook]
  by (auto simp: run_classify_def set_state_def set_end_date_def)

text \<open>
  \<^verbatim>\<open>BaseJob._execute\<close> itself raises \<^verbatim>\<open>NotImplementedError\<close>: FAILED, and raised
  again. An \<^verbatim>\<open>_execute\<close> that exits: SUCCESS.
\<close>

theorem run_classifies_exceptions_witness:
  "fst (run base_env new_job empty_world) =
     Inl (NotImplementedError ''This method needs to be overridden'') \<and>
   log_view (snd (snd (run base_env new_job empty_world))) =
     [(Some State_RUNNING, None), (Some State_FAILED, Some 7)] \<and>
   log_view (snd (snd (run exit_env new_job empty_world))) =
     [(Some State_RUNNING, None), (Some State_SUCCESS, Some 7)]"
proof -
  let ?b = "run_start base_env new_job empty_world"
  let ?x = "run_start exit_env new_job empty_world"
  have execb: "execute base_env (snd ?b) =
      (Inl (NotImplementedError ''This method needs to be overridden''), fst (snd ?b), snd (snd ?b))"
    by (simp add: base_env_def example_env_def BaseJob_execute_def)
  have hookb: "before_stopping base_env
      (fst (run_classify (Inl (NotImplementedError ''This method needs to be overridden''))
         (fst (snd ?b)))) (snd (snd ?b)) = (None, snd (snd ?b))"
    by (simp add: base_env_def example_env_def)
  have execx: "execute exit_env (snd ?x) = (Inl SystemExit, fst (snd ?x), snd (snd ?x))"
    by (simp add: exit_env_def example_env_def split_beta)
  have hookx: "before_stopping exit_env (fst (run_classify (Inl SystemExit) (fst (snd ?x))))
      (snd (snd ?x)) = (None, snd (snd ?x))"
    by (simp add: exit_env_def example_env_def)
  have startb: "log_view (snd (snd ?b)) = [(Some State_RUNNING, None)] \<and> clock (snd (snd ?b)) = 7"
    by (simp add: run_start_def session_commit_done example_env_nofault stats_incr_def
        log_view_def set_state_def empty_world_def new_job_def example_row_def Let_def)
  have startx: "log_view (snd (snd ?x)) = [(Some State_RUNNING, None)] \<and> clock (snd (snd ?x)) = 7"
    by (simp add: run_start_def session_commit_done example_env_nofault stats_incr_def
        log_view_def set_state_def empty_world_def new_job_def example_row_def Let_def)
  from run_classifies_exceptions [OF example_env_nofault(3) execb hookb]
       run_classifies_exceptions [OF example_env_nofault(2) execx hookx] startb startx
  show ?thesis by simp
qed

text \<open>
  C10. When \<^verbatim>\<open>_execute\<close> raises \<^verbatim>\<open>SystemExit\<close> (and storage and
  \<^verbatim>\<open>before_stopping\<close> hook do not fail), \<^verbatim>\<open>run\<close> finalizes with state SUCCESS and
  returns normally with result \<^verbatim>\<open>None\<close>; every other exception that \<^verbatim>\<open>_execute\<close>
  raises is raised by \<^verbatim>\<open>run\<close> to its caller.
\<close>

theorem run_swallows_SystemExit:
  assumes nofault: "\<forall>n. \<not> fault_at E n"
    and exec: "execute E (snd (run_start E j w)) = (out, j2, w2)"
    and hook: "before_stopping E (fst (run_classify out j2)) w2 = (None, w3)"
  shows "(out = Inl SystemExit \<longrightarrow>
            fst (run E j w) = Inr None \<and>
            state (row (fst (snd (run E j w)))) = Some State_SUCCESS \<and>
            log_view (snd (snd (run E j w))) =
              log_view w3 @ [(Some State_SUCCESS, Some (clock w3))]) \<and>
         (\<forall>e. out = Inl e \<and> e \<noteq> SystemExit \<longrightarrow> fst (run E j w) = Inl e)"
  using run_result [OF nofault exec hook]
  by (auto simp: run_classify_def set_state_def set_end_date_def)

text \<open>
  An \<^verbatim>\<open>_execute\<close> that exits, and the one of \<^verbatim>\<open>BaseJob\<close>, whose
  \<^verbatim>\<open>NotImplementedError\<close> reaches the caller.
\<close>

theorem run_swallows_SystemExit_witness:
  "fst (run exit_env new_job empty_world) = Inr None \<and>
   state (row (fst (snd (run exit_env new_job empty_world)))) = Some State_SUCCESS \<and>
   fst (run base_env new_job empty_world) =
     Inl (NotImplementedError ''This method needs to be overridden'')"
proof -
  let ?b = "run_start base_env new_job empty_world"
  let ?x = "run_start exit_env new_job empty_world"
  have execb: "execute base_env (snd ?b) =
      (Inl (NotImplementedError ''This method needs to be overridden''), fst (snd ?b), snd (snd ?b))"
    by (simp add: base_env_def example_env_def BaseJob_execute_def)
  have hookb: "before_stopping base_env
      (fst (run_classify (Inl (NotImplementedError ''This method needs to be overridden''))
         (fst (snd ?b)))) (snd (snd ?b)) = (None, snd (snd ?b))"
    by (simp add: base_env_def example_env_def)
  have execx: "execute exit_env (snd ?x) = (Inl SystemExit, fst (snd ?x), snd (snd ?x))"
    by (simp add: exit_env_def example_env_def split_beta)
  have hookx: "before_stopping exit_env (fst (run_classify (Inl SystemExit) (fst (snd ?x))))
      (snd (snd ?x)) = (None, snd (snd ?x))"
    by (simp add: exit_env_def example_env_def)
  from run_swallows_SystemExit [OF example_env_nofault(3) execb hookb]
       run_swallows_SystemExit [OF example_env_nofault(2) execx hookx]
  show ?thesis by simp
qed

end
